theory Spec2Isabelle
  imports Complex_Main "HOL-Library.Word"
begin

section \<open>Order processing microservice: data model\<close>

text \<open>
  The Go packages \<^verbatim>\<open>models\<close>, \<^verbatim>\<open>repository\<close>, \<^verbatim>\<open>services\<close> and \<^verbatim>\<open>queue\<close> are embedded as
  functions over an explicit world state.

  \<^item> \<^verbatim>\<open>uuid.UUID\<close> is a 16-byte array: a 128-bit word, \<^verbatim>\<open>uuid.Nil\<close> being 0.
  \<^item> \<^verbatim>\<open>time.Time\<close> is an integer timestamp.
  \<^item> \<^verbatim>\<open>OrderStatus\<close> and \<^verbatim>\<open>EventType\<close> are Go string types and stay strings, so a status
    outside the five constants is a value of the model as it is of the program.
  \<^item> \<^verbatim>\<open>float64\<close> is the type parameter \<open>'f\<close>: its zero, addition, multiplication and order
    are the operations of \<open>'f\<close>, about which nothing is assumed, and the conversion
    \<^verbatim>\<open>float64(n)\<close> is a parameter. No rounding behaviour is modelled.
  \<^item> Go \<^verbatim>\<open>int\<close> is \<open>int\<close>; the one place where its range matters (the \<^verbatim>\<open>INTEGER\<close> columns of
    the schema) is written out as a range check.
  \<^item> A Go \<^verbatim>\<open>error\<close> is a value of \<open>error\<close>: \<^verbatim>\<open>fmt.Errorf\<close> with a plain message, \<^verbatim>\<open>fmt.Errorf\<close>
    wrapping an inner error with \<^verbatim>\<open>%w\<close>, or an error raised by an external library
    (database driver, broker client, JSON or UUID package). A function returning \<^verbatim>\<open>error\<close>
    returns \<open>error option\<close>, \<open>None\<close> being \<^verbatim>\<open>nil\<close>.
\<close>

type_synonym uuid = "128 word"
type_synonym time = int
type_synonym OrderStatus = string
type_synonym EventType = string

datatype error = Errorf string | Wrapf string error | Driver string

definition uuid_Nil :: uuid where
  "uuid_Nil = 0"

definition zero_time :: time where
  "zero_time = 0"

definition OrderStatusPending :: OrderStatus where
  "OrderStatusPending = ''pending''"

definition OrderStatusProcessing :: OrderStatus where
  "OrderStatusProcessing = ''processing''"

definition OrderStatusCompleted :: OrderStatus where
  "OrderStatusCompleted = ''completed''"

definition OrderStatusCanceled :: OrderStatus where
  "OrderStatusCanceled = ''canceled''"

definition OrderStatusFailed :: OrderStatus where
  "OrderStatusFailed = ''failed''"

text \<open>
  \<^verbatim>\<open>models.OrderItem\<close>; its Go field \<^verbatim>\<open>ID\<close> is \<open>ItemID\<close> here, \<^verbatim>\<open>ID\<close> being kept for the order.
\<close>

record 'f OrderItem =
  ItemID :: uuid
  OrderID :: uuid
  ProductID :: uuid
  Quantity :: int
  Price :: 'f
  Total :: 'f

record 'f Order =
  ID :: uuid
  CustomerID :: uuid
  Status :: OrderStatus
  Items :: "'f OrderItem list"
  TotalAmount :: 'f
  CreatedAt :: time
  UpdatedAt :: time
  Version :: int

record 'f CreateOrderItemRequest =
  ReqProductID :: uuid
  ReqQuantity :: int
  ReqPrice :: 'f

record 'f CreateOrderRequest =
  ReqCustomerID :: uuid
  ReqItems :: "'f CreateOrderItemRequest list"

subsection \<open>Events\<close>

definition OrderCreatedEvent :: EventType where
  "OrderCreatedEvent = ''order.created''"

definition OrderStatusChangedEvent :: EventType where
  "OrderStatusChangedEvent = ''order.status.changed''"

definition OrderProcessingEvent :: EventType where
  "OrderProcessingEvent = ''order.processing''"

definition OrderCompletedEvent :: EventType where
  "OrderCompletedEvent = ''order.completed''"

definition OrderFailedEvent :: EventType where
  "OrderFailedEvent = ''order.failed''"

text \<open>
  The dynamic values an \<^verbatim>\<open>interface{}\<close> holds in this program: one constructor per payload
  struct of \<^verbatim>\<open>events.go\<close> (fields in declaration order), and the values \<^verbatim>\<open>encoding/json\<close>
  stores when it decodes into an \<^verbatim>\<open>interface{}\<close> (\<^verbatim>\<open>nil\<close>, \<^verbatim>\<open>bool\<close>, \<^verbatim>\<open>float64\<close>, \<^verbatim>\<open>string\<close>,
  \<^verbatim>\<open>[]interface{}\<close>, \<^verbatim>\<open>map[string]interface{}\<close>).
\<close>

datatype 'f any =
    OrderCreatedEventData uuid uuid "'f OrderItem list" 'f time
  | OrderStatusChangedEventData uuid uuid OrderStatus OrderStatus time string
  | OrderProcessingEventData uuid uuid time
  | OrderCompletedEventData uuid uuid time 'f
  | OrderFailedEventData uuid uuid time string string
  | OrderCanceledEventData uuid uuid time string
  | Nil_value
  | Bool_value bool
  | Float64_value 'f
  | String_value string
  | Slice_value "'f any list"
  | Map_value "string \<Rightarrow> 'f any option"

text \<open>
  \<^verbatim>\<open>models.Event\<close>; its Go fields \<^verbatim>\<open>ID\<close> and \<^verbatim>\<open>Version\<close> are \<open>EventID\<close> and \<open>SchemaVersion\<close> here.
\<close>

record 'f Event =
  EventID :: uuid
  Type :: EventType
  Data :: "'f any"
  Timestamp :: time
  SchemaVersion :: string

subsection \<open>Broker messages\<close>

text \<open>
  \<^verbatim>\<open>sarama.ProducerMessage\<close> as \<^verbatim>\<open>PublishEvent\<close> fills it. \<open>'b\<close> is the type of encoded bytes.
  The key is kept as the UUID whose canonical text the code sends
  (\<^verbatim>\<open>sarama.StringEncoder(event.ID.String())\<close>); header values are kept before their
  conversion to bytes.
\<close>

datatype header_value = Header_string string | Header_uuid uuid | Header_time time

record 'b ProducerMessage =
  Topic :: string
  Key :: uuid
  Payload :: 'b
  Headers :: "(string \<times> header_value) list"
  MessageTimestamp :: time

text \<open>\<^verbatim>\<open>sarama.ConsumerMessage\<close>: the fields the consumer reads.\<close>

record 'b ConsumerMessage =
  Partition :: int
  Offset :: int
  Value :: 'b

subsection \<open>External libraries\<close>

text \<open>
  Functions of packages outside the repository, taken as parameters:
  the conversion \<^verbatim>\<open>float64(n)\<close>, \<^verbatim>\<open>json.Marshal\<close> and \<^verbatim>\<open>json.Unmarshal\<close> on events,
  and \<^verbatim>\<open>uuid.Parse\<close>.
\<close>

record ('f, 'b) extern =
  float64 :: "int \<Rightarrow> 'f"
  json_Marshal :: "'f Event \<Rightarrow> error + 'b"
  json_Unmarshal :: "'b \<Rightarrow> error + 'f Event"
  uuid_Parse :: "string \<Rightarrow> error + uuid"

subsection \<open>World state\<close>

text \<open>
  \<^item> \<open>orders\<close>: the table \<^verbatim>\<open>orders\<close> in insertion order, each row together with the rows of
    \<^verbatim>\<open>order_items\<close> that reference it (the aggregate), in insertion order.
  \<^item> \<open>producer_topic\<close>: the topic the \<^verbatim>\<open>KafkaProducer\<close> was configured with.
  \<^item> \<open>sent\<close>: the messages for which \<^verbatim>\<open>SendMessage\<close> succeeded, oldest first;
    \<open>broker_up\<close> tells whether \<^verbatim>\<open>SendMessage\<close> succeeds.
  \<^item> \<open>marked\<close>: the messages passed to \<^verbatim>\<open>session.MarkMessage\<close>, oldest first.
  \<^item> \<open>uuid_source\<close>, \<open>clock\<close>, \<open>rand_source\<close>: the results of successive calls of
    \<^verbatim>\<open>uuid.New()\<close>, \<^verbatim>\<open>time.Now().UTC()\<close> and of the test \<^verbatim>\<open>rand.Float32() < 0.9\<close>, with the
    number of calls made so far.
  The store always answers: its only failures are violations of the schema in
  \<^verbatim>\<open>CreateTables\<close> (primary keys, \<^verbatim>\<open>CHECK\<close> and \<^verbatim>\<open>UNIQUE\<close> constraints, the range of \<^verbatim>\<open>INTEGER\<close>).
  The rounding of \<^verbatim>\<open>DECIMAL(10, 2)\<close> columns and the length of \<^verbatim>\<open>VARCHAR(50)\<close> are not
  modelled. Logging is not modelled.
\<close>

record ('f, 'b) world =
  orders :: "'f Order list"
  producer_topic :: string
  sent :: "'b ProducerMessage list"
  broker_up :: bool
  marked :: "'b ConsumerMessage list"
  uuid_source :: "nat \<Rightarrow> uuid"
  uuid_calls :: nat
  clock :: "nat \<Rightarrow> time"
  clock_calls :: nat
  rand_source :: "nat \<Rightarrow> bool"
  rand_calls :: nat

definition uuid_New :: "('f, 'b) world \<Rightarrow> uuid \<times> ('f, 'b) world" where
  "uuid_New w = (uuid_source w (uuid_calls w), w\<lparr>uuid_calls := Suc (uuid_calls w)\<rparr>)"

definition time_Now :: "('f, 'b) world \<Rightarrow> time \<times> ('f, 'b) world" where
  "time_Now w = (clock w (clock_calls w), w\<lparr>clock_calls := Suc (clock_calls w)\<rparr>)"

definition rand_success :: "('f, 'b) world \<Rightarrow> bool \<times> ('f, 'b) world" where
  "rand_success w = (rand_source w (rand_calls w), w\<lparr>rand_calls := Suc (rand_calls w)\<rparr>)"

section \<open>Order aggregate and state machine (package models)\<close>

text \<open>
  \<^verbatim>\<open>CalculateTotalAmount\<close>: the loop variable \<^verbatim>\<open>item\<close> is a copy of the slice element, so the
  assignment to \<^verbatim>\<open>item.Total\<close> does not reach \<^verbatim>\<open>o.Items\<close>; only \<^verbatim>\<open>o.TotalAmount\<close> changes.
\<close>

definition CalculateTotalAmount ::
  "('f::{zero,plus,times}, 'b) extern \<Rightarrow> 'f Order \<Rightarrow> 'f Order" where
  "CalculateTotalAmount X ord =
     ord\<lparr>TotalAmount :=
       foldl (\<lambda>total item. total + Price item * float64 X (Quantity item)) 0 (Items ord)\<rparr>"

definition validTransitions :: "(OrderStatus \<times> OrderStatus list) list" where
  "validTransitions =
    [(OrderStatusPending, [OrderStatusProcessing, OrderStatusCanceled]),
     (OrderStatusProcessing, [OrderStatusCompleted, OrderStatusFailed, OrderStatusCanceled]),
     (OrderStatusCompleted, []),
     (OrderStatusCanceled, []),
     (OrderStatusFailed, [OrderStatusPending])]"

definition IsValidStatusTransition :: "'f Order \<Rightarrow> OrderStatus \<Rightarrow> bool" where
  "IsValidStatusTransition ord newStatus =
     (case map_of validTransitions (Status ord) of
        None \<Rightarrow> False
      | Some allowedStatuses \<Rightarrow> newStatus \<in> set allowedStatuses)"

text \<open>The transition table as the specification words it (section 4.1).\<close>

definition transition_table :: "(OrderStatus \<times> OrderStatus) set" where
  "transition_table =
     {(''pending'', ''processing''), (''pending'', ''canceled''),
      (''processing'', ''completed''), (''processing'', ''failed''),
      (''processing'', ''canceled''),
      (''failed'', ''pending'')}"

section \<open>Store (package repository and the schema of package database)\<close>

definition int32_ok :: "int \<Rightarrow> bool" where
  "int32_ok n = (- 2147483648 \<le> n \<and> n \<le> 2147483647)"

definition all_items :: "('f, 'b) world \<Rightarrow> 'f OrderItem list" where
  "all_items w = concat (map Items (orders w))"

text \<open>
  Whether the schema accepts a row of \<^verbatim>\<open>order_items\<close>, given the rows \<open>rows\<close> the transaction
  has inserted so far: \<^verbatim>\<open>id UUID PRIMARY KEY\<close>, \<^verbatim>\<open>quantity INTEGER CHECK (quantity > 0)\<close>,
  \<^verbatim>\<open>CHECK (price >= 0)\<close>, \<^verbatim>\<open>UNIQUE(order_id, product_id)\<close>.
\<close>

definition item_row_accepted ::
  "('f::{zero,ord}, 'b) world \<Rightarrow> 'f OrderItem list \<Rightarrow> 'f OrderItem \<Rightarrow> bool" where
  "item_row_accepted w rows row =
     (ItemID row \<notin> set (map ItemID (all_items w @ rows)) \<and>
      int32_ok (Quantity row) \<and> 0 < Quantity row \<and>
      0 \<le> Price row \<and>
      (OrderID row, ProductID row) \<notin>
        set (map (\<lambda>r. (OrderID r, ProductID r)) (all_items w @ rows)))"

text \<open>
  The loop of \<^verbatim>\<open>Create\<close> over \<^verbatim>\<open>order.Items\<close>. It fills \<^verbatim>\<open>ID\<close>, \<^verbatim>\<open>OrderID\<close> and \<^verbatim>\<open>Total\<close> of the loop
  variable, a copy, and inserts that copy; \<open>rows\<close> collects the inserted rows.
\<close>

fun insert_items ::
  "('f::{zero,ord,times}, 'b) extern \<Rightarrow> ('f, 'b) world \<Rightarrow> uuid \<Rightarrow> 'f OrderItem list \<Rightarrow>
     'f OrderItem list \<Rightarrow> (error + 'f OrderItem list) \<times> ('f, 'b) world" where
  "insert_items X w oid rows [] = (Inr rows, w)"
| "insert_items X w oid rows (item # rest) =
     (case uuid_New w of (u, w1) \<Rightarrow>
        (let row = item\<lparr>ItemID := u, OrderID := oid,
                         Total := Price item * float64 X (Quantity item)\<rparr>
         in if item_row_accepted w1 rows row
            then insert_items X w1 oid (rows @ [row]) rest
            else (Inl (Wrapf ''failed to insert order item'' (Driver ''constraint violation'')),
                  w1)))"

text \<open>
  \<^verbatim>\<open>Create\<close> returns the error, the world and the caller's order as the pointer leaves it:
  \<^verbatim>\<open>CreatedAt\<close>, \<^verbatim>\<open>UpdatedAt\<close> and \<^verbatim>\<open>Version\<close> are set, the items are untouched. A failed
  insert rolls the transaction back: the tables are unchanged.
\<close>

definition Create ::
  "('f::{zero,ord,times}, 'b) extern \<Rightarrow> ('f, 'b) world \<Rightarrow> 'f Order \<Rightarrow>
     error option \<times> ('f, 'b) world \<times> 'f Order" where
  "Create X w ord =
     (case time_Now w of (now, w1) \<Rightarrow>
        (let ord1 = ord\<lparr>CreatedAt := now, UpdatedAt := now, Version := 1\<rparr>
         in if ID ord1 \<in> set (map ID (orders w1))
            then (Some (Wrapf ''failed to insert order'' (Driver ''duplicate key'')), w1, ord1)
            else (case insert_items X w1 (ID ord1) [] (Items ord1) of
                    (Inl e, w2) \<Rightarrow> (Some e, w2, ord1)
                  | (Inr rows, w2) \<Rightarrow>
                      (None, w2\<lparr>orders := orders w2 @ [ord1\<lparr>Items := rows\<rparr>]\<rparr>, ord1))))"

text \<open>The items query of \<^verbatim>\<open>GetByID\<close> and \<^verbatim>\<open>getOrderItems\<close>: \<^verbatim>\<open>ORDER BY id\<close>.\<close>

definition with_items :: "'f Order \<Rightarrow> 'f Order" where
  "with_items r = r\<lparr>Items := sort_key ItemID (Items r)\<rparr>"

definition GetByID :: "('f, 'b) world \<Rightarrow> uuid \<Rightarrow> error + 'f Order" where
  "GetByID w i =
     (case find (\<lambda>r. ID r = i) (orders w) of
        None \<Rightarrow> Inl (Errorf ''order not found'')
      | Some r \<Rightarrow> Inr (with_items r))"

text \<open>
  \<^verbatim>\<open>UpdateStatus\<close>: \<^verbatim>\<open>UPDATE orders SET status, updated_at, version = version+1
  WHERE id = $1 AND version = $5\<close>. \<^verbatim>\<open>time.Now()\<close> is read before the statement runs. The
  statement fails when a parameter bound to the \<^verbatim>\<open>INTEGER\<close> column is out of its range,
  which is also where Go's \<^verbatim>\<open>version+1\<close> would wrap.
\<close>

definition UpdateStatus ::
  "('f, 'b) world \<Rightarrow> uuid \<Rightarrow> OrderStatus \<Rightarrow> int \<Rightarrow> error option \<times> ('f, 'b) world" where
  "UpdateStatus w i status version =
     (case time_Now w of (now, w1) \<Rightarrow>
        if \<not> int32_ok version \<or> \<not> int32_ok (version + 1)
        then (Some (Wrapf ''failed to update order status'' (Driver ''integer out of range'')), w1)
        else if filter (\<lambda>r. ID r = i \<and> Version r = version) (orders w1) = []
        then (Some (Errorf ''order not found or version conflict''), w1)
        else (None,
              w1\<lparr>orders :=
                map (\<lambda>r. if ID r = i \<and> Version r = version
                          then r\<lparr>Status := status, UpdatedAt := now, Version := version + 1\<rparr>
                          else r)
                    (orders w1)\<rparr>))"

text \<open>
  \<^verbatim>\<open>GetByStatus\<close>: \<^verbatim>\<open>WHERE status = $1 ORDER BY created_at ASC LIMIT $2 OFFSET $3\<close>. Rows with
  equal \<^verbatim>\<open>created_at\<close> keep their insertion order. A negative \<^verbatim>\<open>LIMIT\<close> or \<^verbatim>\<open>OFFSET\<close> is an
  error of the statement.
\<close>

definition GetByStatus ::
  "('f, 'b) world \<Rightarrow> OrderStatus \<Rightarrow> int \<Rightarrow> int \<Rightarrow> error + 'f Order list" where
  "GetByStatus w status limit offset =
     (if limit < 0 \<or> offset < 0
      then Inl (Wrapf ''failed to get orders by status'' (Driver ''negative limit or offset''))
      else Inr (map with_items
                  (take (nat limit) (drop (nat offset)
                     (sort_key CreatedAt (filter (\<lambda>r. Status r = status) (orders w)))))))"

section \<open>Event model (events.go)\<close>

definition NewEvent ::
  "('f, 'b) world \<Rightarrow> EventType \<Rightarrow> 'f any \<Rightarrow> 'f Event \<times> ('f, 'b) world" where
  "NewEvent w eventType d =
     (case uuid_New w of (u, w1) \<Rightarrow>
      case time_Now w1 of (t, w2) \<Rightarrow>
        (\<lparr>EventID = u, Type = eventType, Data = d, Timestamp = t, SchemaVersion = ''1.0''\<rparr>,
         w2))"

definition NewOrderCreatedEvent ::
  "('f, 'b) world \<Rightarrow> 'f Order \<Rightarrow> 'f Event \<times> ('f, 'b) world" where
  "NewOrderCreatedEvent w ord =
     NewEvent w OrderCreatedEvent
       (OrderCreatedEventData (ID ord) (CustomerID ord) (Items ord) (TotalAmount ord)
          (CreatedAt ord))"

definition NewOrderStatusChangedEvent ::
  "('f, 'b) world \<Rightarrow> 'f Order \<Rightarrow> OrderStatus \<Rightarrow> string \<Rightarrow> 'f Event \<times> ('f, 'b) world" where
  "NewOrderStatusChangedEvent w ord oldStatus reason =
     NewEvent w OrderStatusChangedEvent
       (OrderStatusChangedEventData (ID ord) (CustomerID ord) oldStatus (Status ord)
          (UpdatedAt ord) reason)"

definition NewOrderProcessingEvent ::
  "('f, 'b) world \<Rightarrow> 'f Order \<Rightarrow> 'f Event \<times> ('f, 'b) world" where
  "NewOrderProcessingEvent w ord =
     (case time_Now w of (t, w1) \<Rightarrow>
        NewEvent w1 OrderProcessingEvent (OrderProcessingEventData (ID ord) (CustomerID ord) t))"

definition NewOrderCompletedEvent ::
  "('f, 'b) world \<Rightarrow> 'f Order \<Rightarrow> 'f Event \<times> ('f, 'b) world" where
  "NewOrderCompletedEvent w ord =
     (case time_Now w of (t, w1) \<Rightarrow>
        NewEvent w1 OrderCompletedEvent
          (OrderCompletedEventData (ID ord) (CustomerID ord) t (TotalAmount ord)))"

definition NewOrderFailedEvent ::
  "('f, 'b) world \<Rightarrow> 'f Order \<Rightarrow> string \<Rightarrow> string \<Rightarrow> 'f Event \<times> ('f, 'b) world" where
  "NewOrderFailedEvent w ord reason errorMsg =
     (case time_Now w of (t, w1) \<Rightarrow>
        NewEvent w1 OrderFailedEvent
          (OrderFailedEventData (ID ord) (CustomerID ord) t reason errorMsg))"

section \<open>Producer (package queue)\<close>

text \<open>The message \<^verbatim>\<open>PublishEvent\<close> builds for an event whose encoding is \<open>bytes\<close>.\<close>

definition producer_message ::
  "('f, 'b) world \<Rightarrow> 'f Event \<Rightarrow> 'b \<Rightarrow> 'b ProducerMessage" where
  "producer_message w event bytes =
     \<lparr>Topic = producer_topic w,
      Key = EventID event,
      Payload = bytes,
      Headers = [(''event_type'', Header_string (Type event)),
                 (''event_id'', Header_uuid (EventID event)),
                 (''timestamp'', Header_time (Timestamp event))],
      MessageTimestamp = Timestamp event\<rparr>"

definition PublishEvent ::
  "('f, 'b) extern \<Rightarrow> ('f, 'b) world \<Rightarrow> 'f Event \<Rightarrow> error option \<times> ('f, 'b) world" where
  "PublishEvent X w event =
     (case json_Marshal X event of
        Inl e \<Rightarrow> (Some (Wrapf ''failed to marshal event'' e), w)
      | Inr eventData \<Rightarrow>
          (let message = producer_message w event eventData
           in if broker_up w
              then (None, w\<lparr>sent := sent w @ [message]\<rparr>)
              else (Some (Wrapf ''failed to publish event'' (Driver ''send failed'')), w)))"

section \<open>Command service (services.OrderService)\<close>

text \<open>
  Requests run concurrently, so other writers may change the table \<^verbatim>\<open>orders\<close> between an
  operation's read (\<^verbatim>\<open>GetByID\<close>) and its conditional write (\<^verbatim>\<open>UpdateStatus\<close>). The parameter
  \<open>conc\<close> is what they do to the table in that gap; the identity is the run without
  interference.
\<close>

definition interleave ::
  "('f Order list \<Rightarrow> 'f Order list) \<Rightarrow> ('f, 'b) world \<Rightarrow> ('f, 'b) world" where
  "interleave conc w = w\<lparr>orders := conc (orders w)\<rparr>"

definition request_item :: "'f::zero CreateOrderItemRequest \<Rightarrow> 'f OrderItem" where
  "request_item item =
     \<lparr>ItemID = uuid_Nil, OrderID = uuid_Nil, ProductID = ReqProductID item,
      Quantity = ReqQuantity item, Price = ReqPrice item, Total = 0\<rparr>"

definition CreateOrder ::
  "('f::{zero,ord,plus,times}, 'b) extern \<Rightarrow> ('f, 'b) world \<Rightarrow> 'f CreateOrderRequest \<Rightarrow>
     (error + 'f Order) \<times> ('f, 'b) world" where
  "CreateOrder X w req =
     (case uuid_New w of (oid, w1) \<Rightarrow>
        (let ord = \<lparr>ID = oid, CustomerID = ReqCustomerID req, Status = OrderStatusPending,
                    Items = map request_item (ReqItems req), TotalAmount = 0,
                    CreatedAt = zero_time, UpdatedAt = zero_time, Version = 0\<rparr>;
             ord1 = CalculateTotalAmount X ord
         in case Create X w1 ord1 of
              (Some e, w2, ord2) \<Rightarrow> (Inl (Wrapf ''failed to create order'' e), w2)
            | (None, w2, ord2) \<Rightarrow>
                (case NewOrderCreatedEvent w2 ord2 of (event, w3) \<Rightarrow>
                 case PublishEvent X w3 event of (publish_err, w4) \<Rightarrow>
                   (Inr ord2, w4))))"

definition UpdateOrderStatus ::
  "('f, 'b) extern \<Rightarrow> ('f Order list \<Rightarrow> 'f Order list) \<Rightarrow> ('f, 'b) world \<Rightarrow> uuid \<Rightarrow>
     OrderStatus \<Rightarrow> string \<Rightarrow> error option \<times> ('f, 'b) world" where
  "UpdateOrderStatus X conc w i newStatus reason =
     (case GetByID w i of
        Inl e \<Rightarrow> (Some (Wrapf ''failed to get order'' e), w)
      | Inr ord \<Rightarrow>
          if \<not> IsValidStatusTransition ord newStatus
          then (Some (Errorf (''invalid status transition from '' @ Status ord @ '' to '' @
                              newStatus)), w)
          else (let oldStatus = Status ord
                in case UpdateStatus (interleave conc w) i newStatus (Version ord) of
                     (Some e, w1) \<Rightarrow> (Some (Wrapf ''failed to update order status'' e), w1)
                   | (None, w1) \<Rightarrow>
                       (case time_Now w1 of (now, w2) \<Rightarrow>
                          (let ord1 = ord\<lparr>Status := newStatus, UpdatedAt := now,
                                           Version := Version ord + 1\<rparr>
                           in case NewOrderStatusChangedEvent w2 ord1 oldStatus reason of
                                (event, w3) \<Rightarrow>
                              case PublishEvent X w3 event of (publish_err, w4) \<Rightarrow>
                                (None, w4)))))"

definition CancelOrder ::
  "('f, 'b) extern \<Rightarrow> ('f Order list \<Rightarrow> 'f Order list) \<Rightarrow> ('f, 'b) world \<Rightarrow> uuid \<Rightarrow>
     string \<Rightarrow> error option \<times> ('f, 'b) world" where
  "CancelOrder X conc w i reason = UpdateOrderStatus X conc w i OrderStatusCanceled reason"

section \<open>Event processor (services.OrderProcessor)\<close>

definition parseUUID :: "('f, 'b) extern \<Rightarrow> string \<Rightarrow> uuid" where
  "parseUUID X s = (case uuid_Parse X s of Inl e \<Rightarrow> uuid_Nil | Inr i \<Rightarrow> i)"

text \<open>
  The two type assertions at the head of both handlers:
  \<^verbatim>\<open>event.Data.(map[string]interface{})\<close> and \<^verbatim>\<open>data["order_id"].(string)\<close>.
\<close>

definition event_order_id :: "'f Event \<Rightarrow> error + string" where
  "event_order_id event =
     (case Data event of
        Map_value m \<Rightarrow>
          (case m ''order_id'' of
             Some (String_value orderIDStr) \<Rightarrow> Inr orderIDStr
           | _ \<Rightarrow> Inl (Errorf ''missing or invalid order_id in event data''))
      | _ \<Rightarrow> Inl (Errorf ''invalid event data format''))"

definition handleOrderCreated ::
  "('f, 'b) extern \<Rightarrow> ('f Order list \<Rightarrow> 'f Order list) \<Rightarrow> ('f, 'b) world \<Rightarrow> 'f Event \<Rightarrow>
     error option \<times> ('f, 'b) world" where
  "handleOrderCreated X conc w event =
     (case event_order_id event of
        Inl e \<Rightarrow> (Some e, w)
      | Inr orderIDStr \<Rightarrow>
          (case GetByID w (parseUUID X orderIDStr) of
             Inl e \<Rightarrow> (Some (Wrapf ''failed to get order'' e), w)
           | Inr ord \<Rightarrow>
               if Status ord \<noteq> OrderStatusPending then (None, w)
               else (case UpdateStatus (interleave conc w) (ID ord) OrderStatusProcessing
                            (Version ord) of
                       (Some e, w1) \<Rightarrow>
                         (Some (Wrapf ''failed to update order status to processing'' e), w1)
                     | (None, w1) \<Rightarrow>
                         (case NewOrderProcessingEvent w1 ord of (processingEvent, w2) \<Rightarrow>
                          case PublishEvent X w2 processingEvent of (publish_err, w3) \<Rightarrow>
                            (None, w3)))))"

text \<open>
  \<^verbatim>\<open>handleOrderProcessing\<close>: the sleep is not modelled; \<open>rand_success\<close> is the draw
  \<^verbatim>\<open>rand.Float32() < 0.9\<close>.
\<close>

definition handleOrderProcessing ::
  "('f, 'b) extern \<Rightarrow> ('f Order list \<Rightarrow> 'f Order list) \<Rightarrow> ('f, 'b) world \<Rightarrow> 'f Event \<Rightarrow>
     error option \<times> ('f, 'b) world" where
  "handleOrderProcessing X conc w event =
     (case event_order_id event of
        Inl e \<Rightarrow> (Some e, w)
      | Inr orderIDStr \<Rightarrow>
          (case GetByID w (parseUUID X orderIDStr) of
             Inl e \<Rightarrow> (Some (Wrapf ''failed to get order'' e), w)
           | Inr ord \<Rightarrow>
               if Status ord \<noteq> OrderStatusProcessing then (None, w)
               else (case rand_success (interleave conc w) of (success, w1) \<Rightarrow>
                     if success
                     then (case UpdateStatus w1 (ID ord) OrderStatusCompleted (Version ord) of
                             (Some e, w2) \<Rightarrow>
                               (Some (Wrapf ''failed to update order status to completed'' e), w2)
                           | (None, w2) \<Rightarrow>
                               (case NewOrderCompletedEvent w2 ord of (completedEvent, w3) \<Rightarrow>
                                case PublishEvent X w3 completedEvent of (publish_err, w4) \<Rightarrow>
                                  (None, w4)))
                     else (case UpdateStatus w1 (ID ord) OrderStatusFailed (Version ord) of
                             (Some e, w2) \<Rightarrow>
                               (Some (Wrapf ''failed to update order status to failed'' e), w2)
                           | (None, w2) \<Rightarrow>
                               (case NewOrderFailedEvent w2 ord ''Processing failed''
                                       ''Random processing failure for simulation'' of
                                  (failedEvent, w3) \<Rightarrow>
                                case PublishEvent X w3 failedEvent of (publish_err, w4) \<Rightarrow>
                                  (None, w4))))))"

definition HandleEvent ::
  "('f, 'b) extern \<Rightarrow> ('f Order list \<Rightarrow> 'f Order list) \<Rightarrow> ('f, 'b) world \<Rightarrow> 'f Event \<Rightarrow>
     error option \<times> ('f, 'b) world" where
  "HandleEvent X conc w event =
     (if Type event = OrderCreatedEvent then handleOrderCreated X conc w event
      else if Type event = OrderProcessingEvent then handleOrderProcessing X conc w event
      else (None, w))"

text \<open>
  The loop of \<^verbatim>\<open>ProcessPendingOrders\<close>: a failed publication is logged and the loop goes on.
  The context is taken as never cancelled.
\<close>

fun republish ::
  "('f, 'b) extern \<Rightarrow> ('f, 'b) world \<Rightarrow> 'f Order list \<Rightarrow> ('f, 'b) world" where
  "republish X w [] = w"
| "republish X w (ord # rest) =
     (case NewOrderCreatedEvent w ord of (event, w1) \<Rightarrow>
      case PublishEvent X w1 event of (publish_err, w2) \<Rightarrow>
        republish X w2 rest)"

definition ProcessPendingOrders ::
  "('f, 'b) extern \<Rightarrow> ('f, 'b) world \<Rightarrow> error option \<times> ('f, 'b) world" where
  "ProcessPendingOrders X w =
     (case GetByStatus w OrderStatusPending 100 0 of
        Inl e \<Rightarrow> (Some (Wrapf ''failed to get pending orders'' e), w)
      | Inr pending \<Rightarrow> (None, republish X w pending))"

section \<open>Consumer (queue.KafkaConsumer)\<close>

definition processMessage ::
  "('f, 'b) extern \<Rightarrow> ('f Order list \<Rightarrow> 'f Order list) \<Rightarrow> ('f, 'b) world \<Rightarrow>
     'b ConsumerMessage \<Rightarrow> error option \<times> ('f, 'b) world" where
  "processMessage X conc w message =
     (case json_Unmarshal X (Value message) of
        Inl e \<Rightarrow> (Some (Wrapf ''failed to unmarshal event'' e), w)
      | Inr event \<Rightarrow>
          (case HandleEvent X conc w event of
             (Some e, w1) \<Rightarrow> (Some (Wrapf ''handler failed to process event'' e), w1)
           | (None, w1) \<Rightarrow> (None, w1)))"

text \<open>
  \<^verbatim>\<open>ConsumeClaim\<close> over the messages the claim's channel delivers before it closes: a message
  whose processing fails is skipped without a mark, the others are marked.
\<close>

fun ConsumeClaim ::
  "('f, 'b) extern \<Rightarrow> ('f Order list \<Rightarrow> 'f Order list) \<Rightarrow> ('f, 'b) world \<Rightarrow>
     'b ConsumerMessage list \<Rightarrow> error option \<times> ('f, 'b) world" where
  "ConsumeClaim X conc w [] = (None, w)"
| "ConsumeClaim X conc w (message # rest) =
     (case processMessage X conc w message of
        (Some e, w1) \<Rightarrow> ConsumeClaim X conc w1 rest
      | (None, w1) \<Rightarrow> ConsumeClaim X conc (w1\<lparr>marked := marked w1 @ [message]\<rparr>) rest)"

section \<open>A concrete instance\<close>

text \<open>
  An instance of the parameters and of the world for concrete runs: amounts are exact
  rationals, an event is its own encoding, the parser knows two identifiers,
  \<^verbatim>\<open>uuid.New()\<close> returns 1, 2, 3, ... and the clock 1000, 1001, ...
\<close>

definition example_uuid_Parse :: "string \<Rightarrow> error + uuid" where
  "example_uuid_Parse s =
     (if s = ''00000000-0000-0000-0000-000000000001'' then Inr 1
      else if s = ''00000000-0000-0000-0000-000000000002'' then Inr 2
      else Inl (Driver ''invalid UUID format''))"

definition example_extern :: "(rat, rat Event) extern" where
  "example_extern =
     \<lparr>float64 = of_int, json_Marshal = Inr, json_Unmarshal = Inr,
      uuid_Parse = example_uuid_Parse\<rparr>"

definition example_world :: "(rat, rat Event) world" where
  "example_world =
     \<lparr>orders = [], producer_topic = ''order-events'', sent = [], broker_up = True,
      marked = [], uuid_source = (\<lambda>n. of_nat n + 1), uuid_calls = 0,
      clock = (\<lambda>n. 1000 + int n), clock_calls = 0,
      rand_source = (\<lambda>n. True), rand_calls = 0\<rparr>"

definition example_order :: "uuid \<Rightarrow> OrderStatus \<Rightarrow> int \<Rightarrow> rat Order" where
  "example_order i status version =
     \<lparr>ID = i, CustomerID = 77, Status = status,
      Items = [\<lparr>ItemID = 50 + i, OrderID = i, ProductID = 9, Quantity = 2,
                Price = 2999 / 100, Total = 2999 / 50\<rparr>],
      TotalAmount = 2999 / 50, CreatedAt = 900, UpdatedAt = 900, Version = version\<rparr>"

section \<open>State machine\<close>

lemma IsValidStatusTransition_table:
  "IsValidStatusTransition ord newStatus \<longleftrightarrow> (Status ord, newStatus) \<in> transition_table"
  by (auto simp: IsValidStatusTransition_def validTransitions_def transition_table_def
      OrderStatusPending_def OrderStatusProcessing_def OrderStatusCompleted_def
      OrderStatusCanceled_def OrderStatusFailed_def)

text \<open>
  C1. For every pair of statuses, \<^verbatim>\<open>IsValidStatusTransition\<close> is true exactly on the pairs of
  the transition table; and for every pair outside the table, \<^verbatim>\<open>UpdateOrderStatus\<close> on an
  existing order in the first status returns the error naming the current and the
  requested status and leaves the whole world as it was: no write to the store, no
  publication.
\<close>

theorem transition_table_decides:
  "(IsValidStatusTransition ord newStatus \<longleftrightarrow> (Status ord, newStatus) \<in> transition_table) \<and>
   (GetByID w i = Inr cur \<and> (Status cur, target) \<notin> transition_table \<longrightarrow>
      UpdateOrderStatus X conc w i target reason =
        (Some (Errorf (''invalid status transition from '' @ Status cur @ '' to '' @ target)), w))"
  by (simp add: IsValidStatusTransition_table UpdateOrderStatus_def)

theorem transition_table_decides_witness:
  "GetByID (example_world\<lparr>orders := [example_order 1 ''completed'' 3]\<rparr>) 1
     = Inr (example_order 1 ''completed'' 3) \<and>
   (''completed'', ''pending'') \<notin> transition_table \<and>
   \<not> IsValidStatusTransition (example_order 1 ''completed'' 3) ''pending'' \<and>
   UpdateOrderStatus example_extern (\<lambda>t. t)
       (example_world\<lparr>orders := [example_order 1 ''completed'' 3]\<rparr>) 1 ''pending'' ''retry''
     = (Some (Errorf ''invalid status transition from completed to pending''),
        example_world\<lparr>orders := [example_order 1 ''completed'' 3]\<rparr>)"
  using transition_table_decides [of "example_order 1 ''completed'' 3" "''pending''"
      "example_world\<lparr>orders := [example_order 1 ''completed'' 3]\<rparr>" 1
      "example_order 1 ''completed'' 3" "''pending''" example_extern "\<lambda>t. t" "''retry''"]
  by (simp add: GetByID_def with_items_def example_order_def example_world_def
      transition_table_def)

end
